theory Spec2Isabelle
  imports Main
begin

section \<open>Values of the HTTP layer\<close>

text \<open>
  \<^verbatim>\<open>routes.ts\<close> reads request bodies as untyped JSON (\<^verbatim>\<open>req: any\<close>)
  and branches on JavaScript truthiness (\<^verbatim>\<open>if (!req.body.audioFileUrl)\<close>,
  \<^verbatim>\<open>updates.isPublished ? "public" : "private"\<close>). A JSON object is an association
  list; reading a missing property yields \<open>JUndefined\<close>. Numbers are kept as
  integers: the handlers only ever test a number for being zero.
\<close>

datatype json =
    JUndefined
  | JNull
  | JBool bool
  | JNum int
  | JStr string
  | JDate int
  | JArr "json list"
  | JObj "(string \<times> json) list"

type_synonym jobject = "(string \<times> json) list"

fun truthy :: "json \<Rightarrow> bool" where
  "truthy JUndefined = False"
| "truthy JNull = False"
| "truthy (JBool b) = b"
| "truthy (JNum n) = (n \<noteq> 0)"
| "truthy (JStr s) = (s \<noteq> [])"
| "truthy (JDate t) = True"
| "truthy (JArr xs) = True"
| "truthy (JObj kvs) = True"

definition field :: "jobject \<Rightarrow> string \<Rightarrow> json" where
  "field ob k = (case map_of ob k of None \<Rightarrow> JUndefined | Some v \<Rightarrow> v)"

text \<open>\<^verbatim>\<open>ob.k = v\<close> and \<^verbatim>\<open>delete ob.k\<close> on a JSON object.\<close>

fun set_field :: "jobject \<Rightarrow> string \<Rightarrow> json \<Rightarrow> jobject" where
  "set_field [] k v = [(k, v)]"
| "set_field ((k', v') # ob) k v =
     (if k' = k then (k, v) # ob else (k', v') # set_field ob k v)"

definition delete_field :: "jobject \<Rightarrow> string \<Rightarrow> jobject" where
  "delete_field ob k = filter (\<lambda>kv. fst kv \<noteq> k) ob"

text \<open>
  What a handler hands to \<^verbatim>\<open>res\<close>: \<^verbatim>\<open>res.sendStatus(n)\<close>,
  \<^verbatim>\<open>res.status(n).json(v)\<close> (\<^verbatim>\<open>res.json(v)\<close> is status 200), or the object's
  bytes streamed by \<^verbatim>\<open>downloadObject(objectFile, res)\<close>.
\<close>

datatype response =
    SendStatus nat
  | Json nat json
  | Stream string

fun streams_bytes :: "response \<Rightarrow> bool" where
  "streams_bytes (Stream b) = True"
| "streams_bytes (SendStatus n) = False"
| "streams_bytes (Json n v) = False"

text \<open>
  A request as the handlers read it: \<^verbatim>\<open>req.path\<close>, \<^verbatim>\<open>req.params.id\<close>,
  \<^verbatim>\<open>req.body\<close> and the session user's \<^verbatim>\<open>claims.sub\<close>. \<open>user = None\<close>
  is a request with no \<^verbatim>\<open>req.user\<close>: \<^verbatim>\<open>req.user?.claims?.sub\<close> is then
  \<^verbatim>\<open>undefined\<close>, and \<^verbatim>\<open>req.user.claims.sub\<close> throws a TypeError.
\<close>

record request =
  path :: string
  param_id :: string
  user :: "string option"
  body :: jobject

section \<open>The access-control data model\<close>

datatype visibility = Public | Private

datatype permission = READ | WRITE

text \<open>
  The policy literal the handlers pass, \<^verbatim>\<open>{ owner: userId, visibility: "private" }\<close>,
  and the ACL record of spec section 3, which adds the explicit rules.
\<close>

record policy =
  owner :: string
  visibility :: visibility

record acl_rule =
  principal :: string
  permission :: permission

record acl_record = policy +
  rules :: "acl_rule list"

text \<open>
  The four failures of spec section 7. \<^verbatim>\<open>routes.ts\<close> sees them as thrown
  exceptions and tells only one class apart, \<^verbatim>\<open>ObjectNotFoundError\<close>.
\<close>

datatype error = MalformedReference | ObjectNotFound | AccessDenied | PolicyConflict

datatype decision = Allow | Deny

text \<open>
  An object of the blob store: its bytes and, colocated as metadata, its ACL record
  (absent until a policy is attached).
\<close>

record object =
  bytes :: string
  acl :: "acl_record option"

record user_row =
  role :: string

text \<open>
  Everything a handler can read or change: the blob store keyed by object identifier,
  the tables \<^verbatim>\<open>storage.ts\<close> reads and updates, and the clock \<^verbatim>\<open>new Date()\<close> reads.
\<close>

record world =
  objects :: "string \<rightharpoonup> object"
  tbl_users :: "string \<rightharpoonup> user_row"
  tbl_shows :: "string \<rightharpoonup> jobject"
  tbl_seasons :: "string \<rightharpoonup> jobject"
  tbl_episodes :: "string \<rightharpoonup> jobject"
  clock :: int

section \<open>The object storage service\<close>

text \<open>
  \<^verbatim>\<open>routes.ts\<close> imports \<^verbatim>\<open>ObjectStorageService\<close> and
  \<^verbatim>\<open>ObjectNotFoundError\<close> from \<^verbatim>\<open>./objectStorage\<close> and
  \<^verbatim>\<open>ObjectPermission\<close> from \<^verbatim>\<open>./objectAcl\<close>. Neither file is among the
  sources: only their call sites are. The definitions of this section stand for them;
  each says which part it stands for and which sentences of the specification it
  follows.
\<close>

subsection \<open>Entity path resolver (spec 4.1)\<close>

definition startsWith :: "string \<Rightarrow> string \<Rightarrow> bool" where
  "startsWith s p = (take (length p) s = p)"

fun split_on :: "char \<Rightarrow> string \<Rightarrow> string list" where
  "split_on c [] = [[]]"
| "split_on c (x # xs) =
     (if x = c then [] # split_on c xs
      else (case split_on c xs of [] \<Rightarrow> [[x]] | s # ss \<Rightarrow> (x # s) # ss))"

text \<open>
  Modelled from the spec: the traversal check of the resolver (in the absent
  \<^verbatim>\<open>objectStorage.ts\<close>). Section 4.1: the input "encodes a path-traversal
  sequence", read as a \<^verbatim>\<open>..\<close> segment between slashes.
\<close>

definition traversal :: "string \<Rightarrow> bool" where
  "traversal s = (''..'' \<in> set (split_on CHR ''/'' s))"

definition routing_prefix :: string where
  "routing_prefix = ''/objects/''"

text \<open>
  Modelled from the spec: the download-side resolver behind
  \<^verbatim>\<open>getObjectEntityFile\<close> (in the absent \<^verbatim>\<open>objectStorage.ts\<close>). Section 4.1:
  it "strips the externally visible routing prefix (e.g. a fixed /objects/ segment) to
  recover the identifier suffix, then joins it to the store's private root", and "fails
  with MalformedReference if the input does not match the blob-store's namespace prefix
  or encodes a path-traversal sequence". The private root is the same for every object,
  so the blob store of the model is keyed by the suffix.
\<close>

definition resolve_download :: "string \<Rightarrow> error + string" where
  "resolve_download p =
     (if startsWith p routing_prefix \<and> \<not> traversal (drop (length routing_prefix) p)
      then Inr (drop (length routing_prefix) p)
      else Inl MalformedReference)"

text \<open>
  Modelled from the spec: the upload-side resolver behind
  \<^verbatim>\<open>trySetObjectEntityAclPolicy\<close> (in the absent \<^verbatim>\<open>objectStorage.ts\<close>).
  Section 4.1: it "accepts the full destination URL returned by the Upload Broker,
  strips store-specific query/signature components, and recovers the same canonical
  identifier", failing as the download side does. \<open>ns\<close> is the blob store's namespace
  prefix of upload destinations, a constant of the deployment.
\<close>

definition strip_query :: "string \<Rightarrow> string" where
  "strip_query url = takeWhile (\<lambda>c. c \<noteq> CHR ''?'') url"

definition resolve_upload :: "string \<Rightarrow> string \<Rightarrow> error + string" where
  "resolve_upload ns url =
     (let u = strip_query url in
      if startsWith u ns \<and> \<not> traversal (drop (length ns) u)
      then Inr (drop (length ns) u)
      else Inl MalformedReference)"

subsection \<open>Permission evaluator (spec 4.2)\<close>

text \<open>
  Modelled from the spec: the permission check of the absent \<^verbatim>\<open>objectAcl.ts\<close>.
  Section 4.2, rule 4: "An explicit rule exists for callerPrincipal with
  permission >= requested (WRITE >= READ)".
\<close>

fun covers :: "permission \<Rightarrow> permission \<Rightarrow> bool" where
  "covers WRITE requested = True"
| "covers READ READ = True"
| "covers READ WRITE = False"

definition rule_grants :: "string option \<Rightarrow> permission \<Rightarrow> acl_rule \<Rightarrow> bool" where
  "rule_grants caller requested r =
     (caller = Some (principal r) \<and> covers (permission r) requested)"

text \<open>
  Modelled from the spec: the evaluator of the absent \<^verbatim>\<open>objectAcl.ts\<close>. Section
  4.2, "Decision order (first match wins)": no record, deny; the caller is the owner,
  allow; READ of a public object, allow; an explicit rule covers the request, allow;
  otherwise deny. \<open>caller = None\<close> is the anonymous caller.
\<close>

fun evaluate :: "string option \<Rightarrow> acl_record option \<Rightarrow> permission \<Rightarrow> decision" where
  "evaluate caller None requested = Deny"
| "evaluate caller (Some r) requested =
     (if caller = Some (owner r) then Allow
      else if requested = READ \<and> visibility r = Public then Allow
      else if list_ex (rule_grants caller requested) (rules r) then Allow
      else Deny)"

subsection \<open>The service's operations as routes.ts calls them\<close>

text \<open>
  Modelled from the spec: reading an object's ACL metadata (in the absent
  \<^verbatim>\<open>objectAcl.ts\<close>). Section 4.4, step 2: "Load ACL record for identifier (absent
  is a valid state, treated as deny)"; the record is metadata of the object (section 2),
  so an absent object has none.
\<close>

definition acl_of :: "world \<Rightarrow> string \<Rightarrow> acl_record option" where
  "acl_of w ident = (case objects w ident of None \<Rightarrow> None | Some ob \<Rightarrow> acl ob)"

text \<open>
  Modelled from the spec: \<^verbatim>\<open>ObjectStorageService.getObjectEntityFile\<close> (absent).
  Section 4.4, step 1: "Resolve requestPath to identifier (4.1)".
\<close>

definition getObjectEntityFile :: "string \<Rightarrow> error + string" where
  "getObjectEntityFile p = resolve_download p"

text \<open>
  Modelled from the spec: \<^verbatim>\<open>ObjectStorageService.canAccessObjectEntity\<close> (absent).
  Section 4.4, steps 2 and 3: load the record, evaluate the requested permission.
\<close>

definition canAccessObjectEntity ::
  "world \<Rightarrow> string \<Rightarrow> string option \<Rightarrow> permission \<Rightarrow> bool" where
  "canAccessObjectEntity w objectFile userId requestedPermission =
     (evaluate userId (acl_of w objectFile) requestedPermission = Allow)"

text \<open>
  Modelled from the spec: \<^verbatim>\<open>ObjectStorageService.downloadObject\<close> (absent). Section
  4.4, step 4: "Stream bytes from the store to out; if the store reports the object
  missing (...), fails ObjectNotFound".
\<close>

definition downloadObject :: "world \<Rightarrow> string \<Rightarrow> error + string" where
  "downloadObject w objectFile =
     (case objects w objectFile of None \<Rightarrow> Inl ObjectNotFound | Some ob \<Rightarrow> Inr (bytes ob))"

text \<open>
  Modelled from the spec: writing an object's ACL metadata (in the absent
  \<^verbatim>\<open>objectAcl.ts\<close>). The record written is the policy handed in, with the rule
  list of section 3, "Empty by default".
\<close>

definition write_acl :: "world \<Rightarrow> string \<Rightarrow> object \<Rightarrow> policy \<Rightarrow> world" where
  "write_acl w ident ob p =
     w\<lparr>objects := (objects w)(ident \<mapsto>
        ob\<lparr>acl := Some \<lparr>owner = owner p, visibility = visibility p, rules = []\<rparr>\<rparr>)\<rparr>"

text \<open>
  Modelled from the spec: the attach operation behind
  \<^verbatim>\<open>trySetObjectEntityAclPolicy\<close> (absent). Section 4.3: it resolves the
  destination; "fails with ObjectNotFound if the underlying bytes were never actually
  written"; "if an ACL record already exists for this identifier with a different owner,
  fails with PolicyConflict"; "otherwise creates (or idempotently re-writes with
  identical owner) the ACL record and returns the canonical identifier".
\<close>

definition attachPolicy :: "string \<Rightarrow> world \<Rightarrow> string \<Rightarrow> policy \<Rightarrow> (error + string) \<times> world" where
  "attachPolicy ns w destinationUrl p =
     (case resolve_upload ns destinationUrl of
        Inl e \<Rightarrow> (Inl e, w)
      | Inr ident \<Rightarrow>
          (case objects w ident of
             None \<Rightarrow> (Inl ObjectNotFound, w)
           | Some ob \<Rightarrow>
               (case acl ob of
                  None \<Rightarrow> (Inr ident, write_acl w ident ob p)
                | Some r \<Rightarrow>
                    if owner r \<noteq> owner p then (Inl PolicyConflict, w)
                    else (Inr ident, write_acl w ident ob p))))"

text \<open>
  Modelled from the spec: \<^verbatim>\<open>ObjectStorageService.trySetObjectEntityAclPolicy\<close>
  (absent), the attach operation as the handlers call it, with a value read from the
  request body. The contract of section 4.3 takes a string; any other JSON value is a
  "bad input path/URL" (section 7).
\<close>

definition trySetObjectEntityAclPolicy ::
  "string \<Rightarrow> world \<Rightarrow> json \<Rightarrow> policy \<Rightarrow> (error + string) \<times> world" where
  "trySetObjectEntityAclPolicy ns w rawPath p =
     (case rawPath of
        JStr url \<Rightarrow> attachPolicy ns w url p
      | _ \<Rightarrow> (Inl MalformedReference, w))"

text \<open>
  Modelled from the spec: the class \<^verbatim>\<open>ObjectNotFoundError\<close> (declared in the absent
  \<^verbatim>\<open>objectStorage.ts\<close>), as the test \<^verbatim>\<open>error instanceof ObjectNotFoundError\<close>
  of \<^verbatim>\<open>routes.ts\<close> sees it. Section 7 has MalformedReference "surfaced as not-found,
  never as a parsing error" and ObjectNotFound for bytes absent in the store, and
  section 4.4 has the resolver's failure "surfaced as not-found to the caller". The only
  not-found answer of \<^verbatim>\<open>routes.ts\<close> is the one for this class, so both failures
  are raised as instances of it.
\<close>

definition instanceof_ObjectNotFoundError :: "error \<Rightarrow> bool" where
  "instanceof_ObjectNotFoundError e = (e = MalformedReference \<or> e = ObjectNotFound)"

section \<open>storage.ts: the rows the handlers read and update\<close>

definition getUser :: "world \<Rightarrow> string \<Rightarrow> user_row option" where
  \<comment> \<open>\<^verbatim>\<open>const [user] = await db.select().from(users).where(eq(users.id, id))\<close>\<close>
  "getUser w ident = tbl_users w ident"

text \<open>
  The tables \<^verbatim>\<open>shows\<close>, \<^verbatim>\<open>seasons\<close> and \<^verbatim>\<open>episodes\<close> are declared in
  \<^verbatim>\<open>@shared/schema\<close> and the query is built and run by the ORM behind \<^verbatim>\<open>./db\<close>;
  neither is among the sources. What they decide is a parameter of the update: which
  keys of \<^verbatim>\<open>updates\<close> are columns of the table (the others are not written), and
  which updates the driver or the database refuses (a value the column's type cannot
  take, a violated constraint), in which case the call throws.
\<close>

record table_schema =
  columns :: "string list"
  refuses :: "(string \<rightharpoonup> jobject) \<Rightarrow> string \<Rightarrow> jobject \<Rightarrow> bool"

definition merge_fields :: "jobject \<Rightarrow> jobject \<Rightarrow> jobject" where
  "merge_fields row updates = fold (\<lambda>kv r. set_field r (fst kv) (snd kv)) updates row"

definition column_values :: "table_schema \<Rightarrow> jobject \<Rightarrow> jobject" where
  "column_values sch updates =
     filter (\<lambda>kv. fst kv \<in> set (columns sch) \<and> snd kv \<noteq> JUndefined) updates"

definition update_row ::
  "table_schema \<Rightarrow> (string \<rightharpoonup> jobject) \<Rightarrow> string \<Rightarrow> jobject \<Rightarrow> int
     \<Rightarrow> (json \<times> (string \<rightharpoonup> jobject)) option" where
  \<comment> \<open>\<^verbatim>\<open>db.update(t).set({ ...updates, updatedAt: new Date() }).where(eq(t.id, id)).returning()\<close>,
      of which the first row is returned: \<^verbatim>\<open>undefined\<close> when no row has that id.
      \<open>None\<close> is the call throwing.\<close>
  "update_row sch tbl ident updates now =
     (let values = column_values sch (set_field updates ''updatedAt'' (JDate now)) in
      if refuses sch tbl ident values then None
      else (case tbl ident of
              None \<Rightarrow> Some (JUndefined, tbl)
            | Some row \<Rightarrow>
                (let row' = merge_fields row values
                 in Some (JObj row', tbl(ident \<mapsto> row')))))"

definition updateShow ::
  "table_schema \<Rightarrow> world \<Rightarrow> string \<Rightarrow> jobject \<Rightarrow> (json \<times> world) option" where
  "updateShow sch w ident updates =
     (case update_row sch (tbl_shows w) ident updates (clock w) of
        None \<Rightarrow> None
      | Some (row, tbl) \<Rightarrow> Some (row, w\<lparr>tbl_shows := tbl\<rparr>))"

definition updateSeason ::
  "table_schema \<Rightarrow> world \<Rightarrow> string \<Rightarrow> jobject \<Rightarrow> (json \<times> world) option" where
  "updateSeason sch w ident updates =
     (case update_row sch (tbl_seasons w) ident updates (clock w) of
        None \<Rightarrow> None
      | Some (row, tbl) \<Rightarrow> Some (row, w\<lparr>tbl_seasons := tbl\<rparr>))"

definition updateEpisode ::
  "table_schema \<Rightarrow> world \<Rightarrow> string \<Rightarrow> jobject \<Rightarrow> (json \<times> world) option" where
  "updateEpisode sch w ident updates =
     (case update_row sch (tbl_episodes w) ident updates (clock w) of
        None \<Rightarrow> None
      | Some (row, tbl) \<Rightarrow> Some (row, w\<lparr>tbl_episodes := tbl\<rparr>))"

section \<open>routes.ts: the handlers\<close>

text \<open>
  \<^verbatim>\<open>app.get(path, isAuthenticated, handler)\<close>: the middleware runs first and either
  answers the request itself or calls \<^verbatim>\<open>next()\<close>. \<^verbatim>\<open>isAuthenticated\<close> is imported
  from \<^verbatim>\<open>./replitAuth\<close>, which is not among the sources, so a route takes it as a
  parameter: \<open>Some r\<close> is the middleware answering \<open>r\<close>, \<open>None\<close> is \<^verbatim>\<open>next()\<close>.
\<close>

definition guarded ::
  "(request \<Rightarrow> response option) \<Rightarrow> (world \<Rightarrow> request \<Rightarrow> response \<times> world)
     \<Rightarrow> world \<Rightarrow> request \<Rightarrow> response \<times> world" where
  "guarded middleware handler w req =
     (case middleware req of Some r \<Rightarrow> (r, w) | None \<Rightarrow> handler w req)"

subsection \<open>GET /objects/:objectPath(*)\<close>

definition catch_object_access :: "error \<Rightarrow> response" where
  \<comment> \<open>The catch block: \<^verbatim>\<open>ObjectNotFoundError\<close> is answered 404, anything else 500.\<close>
  "catch_object_access e =
     (if instanceof_ObjectNotFoundError e then SendStatus 404 else SendStatus 500)"

definition get_objects_handler :: "world \<Rightarrow> request \<Rightarrow> response \<times> world" where
  \<comment> \<open>\<^verbatim>\<open>downloadObject\<close> is called inside the \<^verbatim>\<open>try\<close> without \<^verbatim>\<open>await\<close>; its
      failure is modelled as reaching the catch block. After a grant it cannot fail here,
      since the record READ was granted on is metadata of an object that exists.\<close>
  "get_objects_handler w req =
     (let userId = user req in
      case getObjectEntityFile (path req) of
        Inl e \<Rightarrow> (catch_object_access e, w)
      | Inr objectFile \<Rightarrow>
          if \<not> canAccessObjectEntity w objectFile userId READ then (SendStatus 401, w)
          else (case downloadObject w objectFile of
                  Inl e \<Rightarrow> (catch_object_access e, w)
                | Inr b \<Rightarrow> (Stream b, w)))"

definition get_objects ::
  "(request \<Rightarrow> response option) \<Rightarrow> world \<Rightarrow> request \<Rightarrow> response \<times> world" where
  "get_objects isAuthenticated = guarded isAuthenticated get_objects_handler"

subsection \<open>PUT /api/projects/:id/audio\<close>

definition message :: "string \<Rightarrow> string \<Rightarrow> json" where
  "message k text = JObj [(k, JStr text)]"

definition put_project_audio :: "string \<Rightarrow> world \<Rightarrow> request \<Rightarrow> response \<times> world" where
  \<comment> \<open>\<^verbatim>\<open>req.user.claims.sub\<close> is read inside the \<^verbatim>\<open>try\<close>: with no session user it
      throws, and the catch block answers 500.\<close>
  "put_project_audio ns w req =
     (case user req of
        None \<Rightarrow> (Json 500 (message ''error'' ''Internal server error''), w)
      | Some userId \<Rightarrow>
          (let u = getUser w userId in
           if \<not> truthy (field (body req) ''audioFileUrl'')
           then (Json 400 (message ''error'' ''audioFileUrl is required''), w)
           else if map_option role u = Some ''client''
           then (Json 403 (message ''message'' ''Access denied''), w)
           else
             (case trySetObjectEntityAclPolicy ns w (field (body req) ''audioFileUrl'')
                     \<lparr>owner = userId, visibility = Private\<rparr> of
                (Inl e, w') \<Rightarrow> (Json 500 (message ''error'' ''Internal server error''), w')
              | (Inr objectPath, w') \<Rightarrow> (Json 200 (JObj [(''objectPath'', JStr objectPath)]), w'))))"

subsection \<open>PUT /api/shows/:id, /api/seasons/:id, /api/episodes/:id\<close>

definition coverImage_branch ::
  "string \<Rightarrow> world \<Rightarrow> string \<Rightarrow> jobject \<Rightarrow> (error + jobject) \<times> world" where
  \<comment> \<open>\<^verbatim>\<open>if (updates.coverImageURL) { ... }\<close>, written out identically in the three
      handlers (lines 380-391, 479-490, 597-608). \<open>Inl\<close> is the service throwing.\<close>
  "coverImage_branch ns w userId updates =
     (if truthy (field updates ''coverImageURL'') then
        (case trySetObjectEntityAclPolicy ns w (field updates ''coverImageURL'')
                \<lparr>owner = userId, visibility = Public\<rparr> of
           (Inl e, w') \<Rightarrow> (Inl e, w')
         | (Inr coverPath, w') \<Rightarrow>
             (Inr (delete_field (set_field updates ''coverImageUrl'' (JStr coverPath))
                     ''coverImageURL''), w'))
      else (Inr updates, w))"

definition audioFile_branch ::
  "string \<Rightarrow> world \<Rightarrow> string \<Rightarrow> jobject \<Rightarrow> (error + jobject) \<times> world" where
  \<comment> \<open>\<^verbatim>\<open>if (updates.audioFileURL) { ... }\<close> of the episode handler (lines 584-595).\<close>
  "audioFile_branch ns w userId updates =
     (if truthy (field updates ''audioFileURL'') then
        (case trySetObjectEntityAclPolicy ns w (field updates ''audioFileURL'')
                \<lparr>owner = userId,
                 visibility = (if truthy (field updates ''isPublished'') then Public else Private)\<rparr> of
           (Inl e, w') \<Rightarrow> (Inl e, w')
         | (Inr audioPath, w') \<Rightarrow>
             (Inr (delete_field (set_field updates ''audioFileUrl'' (JStr audioPath))
                     ''audioFileURL''), w'))
      else (Inr updates, w))"

definition authentication_required :: response where
  "authentication_required = Json 401 (message ''message'' ''Authentication required'')"

definition put_show :: "string \<Rightarrow> table_schema \<Rightarrow> world \<Rightarrow> request \<Rightarrow> response \<times> world" where
  \<comment> \<open>\<^verbatim>\<open>req.user?.claims?.sub\<close>: with no session user the id is \<^verbatim>\<open>undefined\<close>, no
      user row is found, and the handler answers 401. Whatever is thrown inside the
      \<^verbatim>\<open>try\<close>, by the attach or by the update after it, is answered 400.\<close>
  "put_show ns sch w req =
     (case user req of
        None \<Rightarrow> (authentication_required, w)
      | Some userId \<Rightarrow>
          (case getUser w userId of
             None \<Rightarrow> (authentication_required, w)
           | Some u \<Rightarrow>
               (case coverImage_branch ns w userId (body req) of
                  (Inl e, w') \<Rightarrow> (Json 400 (message ''message'' ''Failed to update show''), w')
                | (Inr updates, w') \<Rightarrow>
                    (case updateShow sch w' (param_id req) updates of
                       None \<Rightarrow> (Json 400 (message ''message'' ''Failed to update show''), w')
                     | Some (updatedShow, w'') \<Rightarrow> (Json 200 updatedShow, w'')))))"

definition put_season :: "string \<Rightarrow> table_schema \<Rightarrow> world \<Rightarrow> request \<Rightarrow> response \<times> world" where
  "put_season ns sch w req =
     (case user req of
        None \<Rightarrow> (authentication_required, w)
      | Some userId \<Rightarrow>
          (case getUser w userId of
             None \<Rightarrow> (authentication_required, w)
           | Some u \<Rightarrow>
               (case coverImage_branch ns w userId (body req) of
                  (Inl e, w') \<Rightarrow> (Json 400 (message ''message'' ''Failed to update season''), w')
                | (Inr updates, w') \<Rightarrow>
                    (case updateSeason sch w' (param_id req) updates of
                       None \<Rightarrow> (Json 400 (message ''message'' ''Failed to update season''), w')
                     | Some (updatedSeason, w'') \<Rightarrow> (Json 200 updatedSeason, w'')))))"

definition put_episode :: "string \<Rightarrow> table_schema \<Rightarrow> world \<Rightarrow> request \<Rightarrow> response \<times> world" where
  "put_episode ns sch w req =
     (case user req of
        None \<Rightarrow> (authentication_required, w)
      | Some userId \<Rightarrow>
          (case getUser w userId of
             None \<Rightarrow> (authentication_required, w)
           | Some u \<Rightarrow>
               (case audioFile_branch ns w userId (body req) of
                  (Inl e, w1) \<Rightarrow> (Json 400 (message ''message'' ''Failed to update episode''), w1)
                | (Inr updates1, w1) \<Rightarrow>
                    (case coverImage_branch ns w1 userId updates1 of
                       (Inl e, w2) \<Rightarrow>
                         (Json 400 (message ''message'' ''Failed to update episode''), w2)
                     | (Inr updates2, w2) \<Rightarrow>
                         (case updateEpisode sch w2 (param_id req) updates2 of
                            None \<Rightarrow>
                              (Json 400 (message ''message'' ''Failed to update episode''), w2)
                          | Some (updatedEpisode, w3) \<Rightarrow> (Json 200 updatedEpisode, w3))))))"

section \<open>Sample inputs\<close>

text \<open>
  A small deployment on which the theorems below are exercised: three uploaded objects
  (one not yet policed, one public, one private, the last two owned by \<open>u1\<close>), two
  producers and a client.
\<close>

definition sample_ns :: string where
  "sample_ns = ''https://blob.example/private/''"

definition sample_world :: world where
  "sample_world =
     \<lparr>objects =
        [''uploads/a1'' \<mapsto> \<lparr>bytes = ''RIFF'', acl = None\<rparr>,
         ''uploads/c1'' \<mapsto> \<lparr>bytes = ''PNG'',
            acl = Some \<lparr>owner = ''u1'', visibility = Public, rules = []\<rparr>\<rparr>,
         ''uploads/p1'' \<mapsto> \<lparr>bytes = ''MP3'',
            acl = Some \<lparr>owner = ''u1'', visibility = Private, rules = []\<rparr>\<rparr>],
      tbl_users = [''u1'' \<mapsto> \<lparr>role = ''producer''\<rparr>, ''u2'' \<mapsto> \<lparr>role = ''client''\<rparr>,
                   ''u3'' \<mapsto> \<lparr>role = ''producer''\<rparr>],
      tbl_shows = [''s1'' \<mapsto> [(''title'', JStr ''Campus radio'')]],
      tbl_seasons = [''n1'' \<mapsto> [(''seasonNumber'', JNum 1)]],
      tbl_episodes = [''e1'' \<mapsto> [(''title'', JStr ''Pilot'')]],
      clock = 1700000000000\<rparr>"

definition download_request :: "string \<Rightarrow> string option \<Rightarrow> request" where
  "download_request p u = \<lparr>path = p, param_id = [], user = u, body = []\<rparr>"

definition update_request :: "string \<Rightarrow> string option \<Rightarrow> jobject \<Rightarrow> request" where
  "update_request i u b = \<lparr>path = [], param_id = i, user = u, body = b\<rparr>"

text \<open>
  A body for \<^verbatim>\<open>PUT /api/projects/:id/audio\<close> that names an owner and a visibility of
  its own, sent by \<open>u1\<close>.
\<close>

definition attach_request :: request where
  "attach_request = update_request ''p1'' (Some ''u1'')
      [(''audioFileUrl'', JStr ''https://blob.example/private/uploads/a1?sig=abc''),
       (''owner'', JStr ''u2''),
       (''visibility'', JStr ''public'')]"

text \<open>
  A table whose columns are those the sample rows and bodies use, and whose
  \<^verbatim>\<open>isPublished\<close> column takes booleans only.
\<close>

definition sample_schema :: table_schema where
  "sample_schema =
     \<lparr>columns = [''title'', ''seasonNumber'', ''isPublished'', ''audioFileUrl'',
                 ''coverImageUrl'', ''updatedAt''],
      refuses = (\<lambda>tbl ident values.
         case map_of values ''isPublished'' of
           None \<Rightarrow> False
         | Some (JBool b) \<Rightarrow> False
         | Some v \<Rightarrow> True)\<rparr>"

definition sample_url :: string where
  "sample_url = ''https://blob.example/private/uploads/a1?sig=abc''"

definition cover_request :: "string \<Rightarrow> request" where
  "cover_request i = update_request i (Some ''u1'') [(''coverImageURL'', JStr sample_url)]"

text \<open>
  An episode update whose audio file and cover image are one and the same upload, with
  the episode left unpublished; and one that publishes with an audio file only.
\<close>

definition same_upload_request :: request where
  "same_upload_request = update_request ''e1'' (Some ''u1'')
      [(''audioFileURL'', JStr sample_url),
       (''coverImageURL'', JStr sample_url),
       (''isPublished'', JBool False)]"

definition publish_request :: "json \<Rightarrow> request" where
  "publish_request v = update_request ''e1'' (Some ''u1'')
      [(''audioFileURL'', JStr sample_url), (''isPublished'', v)]"

section \<open>Auxiliary facts\<close>

subsection \<open>JSON objects\<close>

lemma map_of_set_field_same: "map_of (set_field ob k v) k = Some v"
  by (induction ob k v rule: set_field.induct) auto

lemma map_of_set_field_other: "k' \<noteq> k \<Longrightarrow> map_of (set_field ob k v) k' = map_of ob k'"
  by (induction ob k v rule: set_field.induct) auto

lemma map_of_delete_field_other:
  "k \<noteq> k' \<Longrightarrow> map_of (delete_field ob k') k = map_of ob k"
  by (induction ob) (auto simp add: delete_field_def)

lemma field_renamed:
  "k \<noteq> k' \<Longrightarrow> field (delete_field (set_field ob k v) k') k = v"
  by (simp add: field_def map_of_delete_field_other map_of_set_field_same)

lemma field_kept:
  "k'' \<noteq> k \<Longrightarrow> k'' \<noteq> k' \<Longrightarrow> field (delete_field (set_field ob k v) k') k'' = field ob k''"
  by (simp add: field_def map_of_delete_field_other map_of_set_field_other)

subsection \<open>Attaching a policy\<close>

lemma acl_of_write_acl:
  "acl_of (write_acl w ident ob p) ident
     = Some \<lparr>owner = owner p, visibility = visibility p, rules = []\<rparr>"
  by (simp add: acl_of_def write_acl_def)

lemma acl_of_cong: "objects w' = objects w \<Longrightarrow> acl_of w' = acl_of w"
  by (simp add: acl_of_def fun_eq_iff)

lemma attachPolicy_success:
  assumes "attachPolicy ns w url p = (Inr ident, w')"
  shows "resolve_upload ns url = Inr ident
       \<and> (\<exists>ob. objects w ident = Some ob \<and> w' = write_acl w ident ob p)"
  using assms
  by (auto simp add: attachPolicy_def split: sum.splits option.splits if_splits)

lemma attachPolicy_failure:
  assumes "attachPolicy ns w url p = (Inl e, w')"
  shows "w' = w"
  using assms
  by (auto simp add: attachPolicy_def split: sum.splits option.splits if_splits)

lemma trySet_success:
  assumes "trySetObjectEntityAclPolicy ns w rawPath p = (Inr ident, w')"
  shows "\<exists>url ob. rawPath = JStr url \<and> resolve_upload ns url = Inr ident
           \<and> objects w ident = Some ob \<and> w' = write_acl w ident ob p"
  using assms
  by (cases rawPath) (auto simp add: trySetObjectEntityAclPolicy_def dest: attachPolicy_success)

lemma trySet_failure:
  assumes "trySetObjectEntityAclPolicy ns w rawPath p = (Inl e, w')"
  shows "w' = w"
  using assms
  by (cases rawPath) (auto simp add: trySetObjectEntityAclPolicy_def dest: attachPolicy_failure)

lemma trySet_attached:
  assumes "trySetObjectEntityAclPolicy ns w rawPath p = (Inr ident, w')"
  shows "acl_of w' ident = Some \<lparr>owner = owner p, visibility = visibility p, rules = []\<rparr>"
  using trySet_success [OF assms] by (auto simp add: acl_of_write_acl)

subsection \<open>The row updates leave the blob store alone\<close>

lemma updateShow_objects: "updateShow sch w i u = Some (row, w') \<Longrightarrow> objects w' = objects w"
  by (auto simp add: updateShow_def split: option.splits prod.splits)

lemma updateSeason_objects: "updateSeason sch w i u = Some (row, w') \<Longrightarrow> objects w' = objects w"
  by (auto simp add: updateSeason_def split: option.splits prod.splits)

lemma updateEpisode_objects: "updateEpisode sch w i u = Some (row, w') \<Longrightarrow> objects w' = objects w"
  by (auto simp add: updateEpisode_def split: option.splits prod.splits)

lemma objects_write_acl:
  "objects (write_acl w ident ob p) j =
     (if j = ident
      then Some (ob\<lparr>acl := Some \<lparr>owner = owner p, visibility = visibility p, rules = []\<rparr>\<rparr>)
      else objects w j)"
  by (simp add: write_acl_def)

lemma acl_of_write_acl_other: "j \<noteq> ident \<Longrightarrow> acl_of (write_acl w ident ob p) j = acl_of w j"
  by (simp add: acl_of_def write_acl_def)

lemma trySet_attachable:
  assumes "resolve_upload ns url = Inr ident"
      and "objects w ident = Some ob"
      and "map_option owner (acl ob) \<in> {None, Some (owner p)}"
  shows "trySetObjectEntityAclPolicy ns w (JStr url) p = (Inr ident, write_acl w ident ob p)"
  using assms
  by (auto simp add: trySetObjectEntityAclPolicy_def attachPolicy_def split: option.splits)

lemma trySet_elsewhere:
  assumes "trySetObjectEntityAclPolicy ns w rawPath p = (r, w')"
      and "r \<noteq> Inr ident"
  shows "acl_of w' ident = acl_of w ident"
proof (cases r)
  case (Inl e)
  with assms(1) trySet_failure show ?thesis by blast
next
  case (Inr cid)
  with assms(2) have "cid \<noteq> ident" by simp
  moreover from trySet_success [OF assms(1) [unfolded Inr]]
  obtain ob where "w' = write_acl w cid ob p" by blast
  ultimately show ?thesis by (simp add: acl_of_write_acl_other)
qed

subsection \<open>The two attach branches of the update handlers\<close>

text \<open>The blob store after an update handler is the one its attach branches leave.\<close>

lemma put_show_objects:
  assumes "user req = Some uid" and "getUser w uid = Some u"
  shows "objects (snd (put_show ns sch w req))
           = objects (snd (coverImage_branch ns w uid (body req)))"
  using assms
  by (auto simp add: put_show_def dest: updateShow_objects
        split: option.splits prod.splits sum.splits)

lemma put_season_objects:
  assumes "user req = Some uid" and "getUser w uid = Some u"
  shows "objects (snd (put_season ns sch w req))
           = objects (snd (coverImage_branch ns w uid (body req)))"
  using assms
  by (auto simp add: put_season_def dest: updateSeason_objects
        split: option.splits prod.splits sum.splits)

lemma put_episode_objects:
  assumes "user req = Some uid" and "getUser w uid = Some u"
      and "audioFile_branch ns w uid (body req) = (Inr updates1, w1)"
  shows "objects (snd (put_episode ns sch w req))
           = objects (snd (coverImage_branch ns w1 uid updates1))"
  using assms
  by (auto simp add: put_episode_def dest: updateEpisode_objects
        split: option.splits prod.splits sum.splits)

lemma coverImage_branch_attaches:
  assumes "field updates ''coverImageURL'' = JStr url" and "url \<noteq> []"
      and "resolve_upload ns url = Inr ident"
      and "objects w ident = Some ob"
      and "map_option owner (acl ob) \<in> {None, Some uid}"
  shows "acl_of (snd (coverImage_branch ns w uid updates)) ident
           = Some \<lparr>owner = uid, visibility = Public, rules = []\<rparr>"
  using assms trySet_attachable [of ns url ident w ob "\<lparr>owner = uid, visibility = Public\<rparr>"]
  by (simp add: coverImage_branch_def acl_of_write_acl)

lemma audioFile_branch_not_taken:
  "\<not> truthy (field updates ''audioFileURL'')
     \<Longrightarrow> audioFile_branch ns w uid updates = (Inr updates, w)"
  by (simp add: audioFile_branch_def)

lemma audioFile_branch_attaches:
  assumes "field updates ''audioFileURL'' = JStr url" and "url \<noteq> []"
      and "resolve_upload ns url = Inr ident"
      and "objects w ident = Some ob"
      and "map_option owner (acl ob) \<in> {None, Some uid}"
  shows "audioFile_branch ns w uid updates
           = (Inr (delete_field (set_field updates ''audioFileUrl'' (JStr ident)) ''audioFileURL''),
              write_acl w ident ob
                \<lparr>owner = uid,
                 visibility = (if truthy (field updates ''isPublished'') then Public else Private)\<rparr>)"
  using assms
    trySet_attachable [of ns url ident w ob "\<lparr>owner = uid,
                 visibility = (if truthy (field updates ''isPublished'') then Public else Private)\<rparr>"]
  by (simp add: audioFile_branch_def)

lemma coverImage_branch_elsewhere:
  assumes "\<not> (\<exists>c. field updates ''coverImageURL'' = JStr c \<and> c \<noteq> []
                  \<and> resolve_upload ns c = Inr ident)"
  shows "acl_of (snd (coverImage_branch ns w uid updates)) ident = acl_of w ident"
proof (cases "truthy (field updates ''coverImageURL'')")
  case False
  then show ?thesis by (simp add: coverImage_branch_def)
next
  case True
  let ?p = "\<lparr>owner = uid, visibility = Public\<rparr>"
  obtain r w' where call:
    "trySetObjectEntityAclPolicy ns w (field updates ''coverImageURL'') ?p = (r, w')"
    by (cases "trySetObjectEntityAclPolicy ns w (field updates ''coverImageURL'') ?p")
  have "r \<noteq> Inr ident"
  proof
    assume "r = Inr ident"
    from trySet_success [OF call [unfolded this]] obtain c
      where c: "field updates ''coverImageURL'' = JStr c" "resolve_upload ns c = Inr ident"
      by blast
    with True have "c \<noteq> []" by auto
    with c assms show False by blast
  qed
  from trySet_elsewhere [OF call this] True call show ?thesis
    by (cases r) (simp_all add: coverImage_branch_def)
qed

subsection \<open>The sample deployment\<close>


lemma sample_resolve_p1: "getObjectEntityFile ''/objects/uploads/p1'' = Inr ''uploads/p1''"
  by (simp add: getObjectEntityFile_def resolve_download_def startsWith_def routing_prefix_def
        traversal_def)

lemma sample_resolve_a1: "getObjectEntityFile ''/objects/uploads/a1'' = Inr ''uploads/a1''"
  by (simp add: getObjectEntityFile_def resolve_download_def startsWith_def routing_prefix_def
        traversal_def)

lemma sample_upload_a1:
  "resolve_upload sample_ns ''https://blob.example/private/uploads/a1?sig=abc''
     = Inr ''uploads/a1''"
  by (simp add: resolve_upload_def strip_query_def startsWith_def sample_ns_def traversal_def)

lemma sample_upload_p1:
  "resolve_upload sample_ns ''https://blob.example/private/uploads/p1?sig=abc''
     = Inr ''uploads/p1''"
  by (simp add: resolve_upload_def strip_query_def startsWith_def sample_ns_def traversal_def)

lemma sample_acl_a1: "acl_of sample_world ''uploads/a1'' = None"
  by (simp add: acl_of_def sample_world_def)


lemma sample_acl_p1:
  "acl_of sample_world ''uploads/p1''
     = Some \<lparr>owner = ''u1'', visibility = Private, rules = []\<rparr>"
  by (simp add: acl_of_def sample_world_def)

lemma sample_attach:
  "put_project_audio sample_ns sample_world attach_request
     = (Json 200 (JObj [(''objectPath'', JStr ''uploads/a1'')]),
        write_acl sample_world ''uploads/a1'' \<lparr>bytes = ''RIFF'', acl = None\<rparr>
          \<lparr>owner = ''u1'', visibility = Private\<rparr>)"
  by (simp add: put_project_audio_def attach_request_def update_request_def field_def getUser_def
        trySetObjectEntityAclPolicy_def attachPolicy_def sample_upload_a1 sample_world_def)

lemma sample_url_nonempty: "sample_url \<noteq> []"
  by (simp add: sample_url_def)

lemma sample_upload_url: "resolve_upload sample_ns sample_url = Inr ''uploads/a1''"
  by (simp add: resolve_upload_def strip_query_def startsWith_def sample_ns_def traversal_def
        sample_url_def)

lemma sample_object_a1:
  "objects sample_world ''uploads/a1'' = Some \<lparr>bytes = ''RIFF'', acl = None\<rparr>"
  by (simp add: sample_world_def)

lemma sample_attachable_a1:
  "map_option owner (acl \<lparr>bytes = ''RIFF'', acl = None\<rparr>) \<in> {None, Some ''u1''}"
  by simp

lemma sample_user_u1: "getUser sample_world ''u1'' = Some \<lparr>role = ''producer''\<rparr>"
  by (simp add: getUser_def sample_world_def)

section \<open>The download route\<close>



text \<open>
  C2. For every identifier that has no ACL record, the evaluation denies READ and WRITE
  to every caller, the anonymous one included, and a download request that resolves to
  that identifier is answered 401 and returns no bytes.
\<close>

theorem no_acl_record_denies_all:
  assumes "acl_of w ident = None"
  shows "evaluate caller (acl_of w ident) READ = Deny
       \<and> evaluate caller (acl_of w ident) WRITE = Deny
       \<and> \<not> canAccessObjectEntity w ident caller READ
       \<and> \<not> canAccessObjectEntity w ident caller WRITE
       \<and> (getObjectEntityFile (path req) = Inr ident
            \<longrightarrow> get_objects_handler w req = (SendStatus 401, w))"
  using assms by (simp add: canAccessObjectEntity_def get_objects_handler_def)

theorem no_acl_record_denies_all_witness:
  "acl_of sample_world ''uploads/a1'' = None
   \<and> evaluate None (acl_of sample_world ''uploads/a1'') READ = Deny
   \<and> evaluate None (acl_of sample_world ''uploads/a1'') WRITE = Deny
   \<and> get_objects_handler sample_world (download_request ''/objects/uploads/a1'' None)
       = (SendStatus 401, sample_world)"
proof -
  have p: "path (download_request ''/objects/uploads/a1'' None) = ''/objects/uploads/a1''"
    by (simp add: download_request_def)
  from no_acl_record_denies_all
         [OF sample_acl_a1, of None "download_request ''/objects/uploads/a1'' None"]
    sample_acl_a1 sample_resolve_a1 p
  show ?thesis by simp
qed

section \<open>Attaching a policy\<close>

text \<open>
  C3. For every attach call whose resolved identifier already has an ACL record with an
  owner different from the owner of the policy being attached, the attach fails with
  PolicyConflict and the state, hence the existing record and its owner, is unchanged.
\<close>

theorem attach_conflict_keeps_record:
  assumes "resolve_upload ns url = Inr ident"
      and "acl_of w ident = Some r"
      and "owner r \<noteq> owner p"
  shows "trySetObjectEntityAclPolicy ns w (JStr url) p = (Inl PolicyConflict, w)"
  using assms
  by (auto simp add: trySetObjectEntityAclPolicy_def attachPolicy_def acl_of_def
        split: option.splits)

theorem attach_conflict_keeps_record_witness:
  "resolve_upload sample_ns ''https://blob.example/private/uploads/p1?sig=abc''
     = Inr ''uploads/p1''
   \<and> acl_of sample_world ''uploads/p1''
       = Some \<lparr>owner = ''u1'', visibility = Private, rules = []\<rparr>
   \<and> trySetObjectEntityAclPolicy sample_ns sample_world
        (JStr ''https://blob.example/private/uploads/p1?sig=abc'')
        \<lparr>owner = ''u3'', visibility = Public\<rparr> = (Inl PolicyConflict, sample_world)"
proof -
  have h3: "owner \<lparr>owner = ''u1'', visibility = Private, rules = []\<rparr>
              \<noteq> owner \<lparr>owner = ''u3'', visibility = Public\<rparr>"
    by simp
  from attach_conflict_keeps_record [OF sample_upload_p1 sample_acl_p1 h3]
    sample_upload_p1 sample_acl_p1
  show ?thesis by simp
qed

text \<open>
  C4. \<^verbatim>\<open>PUT /api/projects/:id/audio\<close> reads one thing from the body, the raw
  reference \<^verbatim>\<open>audioFileUrl\<close>. Whenever it answers 200, the body held a string that
  resolves to an identifier, the answer is \<^verbatim>\<open>{ objectPath: identifier }\<close>, and the ACL
  record of that identifier has the session user as owner and visibility private,
  whatever owner or visibility the body names.
\<close>

theorem project_audio_attaches_caller_private:
  assumes "user req = Some uid"
      and "put_project_audio ns w req = (Json 200 v, w')"
  shows "\<exists>url ident. field (body req) ''audioFileUrl'' = JStr url
           \<and> resolve_upload ns url = Inr ident
           \<and> v = JObj [(''objectPath'', JStr ident)]
           \<and> acl_of w' ident = Some \<lparr>owner = uid, visibility = Private, rules = []\<rparr>"
proof -
  let ?p = "\<lparr>owner = uid, visibility = Private\<rparr>"
  obtain r w1 where call:
    "trySetObjectEntityAclPolicy ns w (field (body req) ''audioFileUrl'') ?p = (r, w1)"
    by (cases "trySetObjectEntityAclPolicy ns w (field (body req) ''audioFileUrl'') ?p")
  with assms obtain ident where r: "r = Inr ident" and w1: "w1 = w'"
    and v: "v = JObj [(''objectPath'', JStr ident)]"
    by (cases r) (auto simp add: put_project_audio_def message_def Let_def split: if_splits)
  from trySet_success [OF call [unfolded r]] trySet_attached [OF call [unfolded r]] w1 v
  show ?thesis by auto
qed

theorem project_audio_attaches_caller_private_witness:
  "user attach_request = Some ''u1''
   \<and> (\<exists>url ident. field (body attach_request) ''audioFileUrl'' = JStr url
         \<and> resolve_upload sample_ns url = Inr ident
         \<and> acl_of (write_acl sample_world ''uploads/a1'' \<lparr>bytes = ''RIFF'', acl = None\<rparr>
                     \<lparr>owner = ''u1'', visibility = Private\<rparr>) ident
             = Some \<lparr>owner = ''u1'', visibility = Private, rules = []\<rparr>)"
proof -
  have h1: "user attach_request = Some ''u1''"
    by (simp add: attach_request_def update_request_def)
  from project_audio_attaches_caller_private [OF h1 sample_attach] h1
  show ?thesis by blast
qed

text \<open>
  A body that supplies owner \<open>u2\<close> and visibility public, sent by \<open>u1\<close>: the record
  attached has owner \<open>u1\<close> and visibility private.
\<close>

theorem project_audio_ignores_body_policy:
  "field (body attach_request) ''owner'' = JStr ''u2''
   \<and> field (body attach_request) ''visibility'' = JStr ''public''
   \<and> fst (put_project_audio sample_ns sample_world attach_request)
       = Json 200 (JObj [(''objectPath'', JStr ''uploads/a1'')])
   \<and> acl_of (snd (put_project_audio sample_ns sample_world attach_request)) ''uploads/a1''
       = Some \<lparr>owner = ''u1'', visibility = Private, rules = []\<rparr>"
  by (simp add: sample_attach acl_of_write_acl)
     (simp add: attach_request_def update_request_def field_def)

section \<open>Failures of the download route\<close>

text \<open>
  C5. For every download request whose READ evaluation denies the caller, the handler
  answers 401 and writes no object bytes; the state is unchanged.
\<close>

theorem denied_download_answers_401:
  assumes "getObjectEntityFile (path req) = Inr objectFile"
      and "\<not> canAccessObjectEntity w objectFile (user req) READ"
  shows "get_objects_handler w req = (SendStatus 401, w)"
  using assms by (simp add: get_objects_handler_def)

theorem denied_download_answers_401_witness:
  "getObjectEntityFile (path (download_request ''/objects/uploads/p1'' (Some ''u2'')))
     = Inr ''uploads/p1''
   \<and> \<not> canAccessObjectEntity sample_world ''uploads/p1''
          (user (download_request ''/objects/uploads/p1'' (Some ''u2''))) READ
   \<and> get_objects_handler sample_world (download_request ''/objects/uploads/p1'' (Some ''u2''))
        = (SendStatus 401, sample_world)"
proof -
  let ?req = "download_request ''/objects/uploads/p1'' (Some ''u2'')"
  have h1: "getObjectEntityFile (path ?req) = Inr ''uploads/p1''"
    by (simp add: download_request_def sample_resolve_p1)
  have h2: "\<not> canAccessObjectEntity sample_world ''uploads/p1'' (user ?req) READ"
    by (simp add: canAccessObjectEntity_def sample_acl_p1 download_request_def)
  from denied_download_answers_401 [OF h1 h2] h1 h2 show ?thesis by simp
qed

text \<open>
  C6. For every download request whose path does not start with the routing prefix or
  holds a path-traversal segment, resolution fails with MalformedReference and the
  handler answers 404 (not found), not 500; the state is unchanged.
\<close>

theorem malformed_reference_answers_404:
  assumes "\<not> startsWith (path req) routing_prefix
             \<or> traversal (drop (length routing_prefix) (path req))"
  shows "getObjectEntityFile (path req) = Inl MalformedReference
       \<and> get_objects_handler w req = (SendStatus 404, w)"
  using assms
  by (auto simp add: get_objects_handler_def getObjectEntityFile_def resolve_download_def
        catch_object_access_def instanceof_ObjectNotFoundError_def)

theorem malformed_reference_answers_404_witness:
  "traversal (drop (length routing_prefix)
      (path (download_request ''/objects/../db/users'' (Some ''u1''))))
   \<and> get_objects_handler sample_world (download_request ''/objects/../db/users'' (Some ''u1''))
        = (SendStatus 404, sample_world)
   \<and> \<not> startsWith (path (download_request ''/files/uploads/c1'' (Some ''u1''))) routing_prefix
   \<and> get_objects_handler sample_world (download_request ''/files/uploads/c1'' (Some ''u1''))
        = (SendStatus 404, sample_world)"
proof -
  let ?r1 = "download_request ''/objects/../db/users'' (Some ''u1'')"
  let ?r2 = "download_request ''/files/uploads/c1'' (Some ''u1'')"
  have h1: "traversal (drop (length routing_prefix) (path ?r1))"
    by (simp add: download_request_def routing_prefix_def traversal_def)
  have h2: "\<not> startsWith (path ?r2) routing_prefix"
    by (simp add: download_request_def routing_prefix_def startsWith_def)
  from malformed_reference_answers_404 [of ?r1 sample_world]
    malformed_reference_answers_404 [of ?r2 sample_world] h1 h2
  show ?thesis by blast
qed

text \<open>
  C7. For every download request, served or refused, the state after the request is the
  state before it: no ACL record, no stored object and no database row is created,
  updated or deleted, by the handler or by the route around it.
\<close>

theorem download_changes_nothing:
  "snd (get_objects_handler w req) = w \<and> snd (get_objects isAuthenticated w req) = w"
  by (simp add: get_objects_def guarded_def get_objects_handler_def
        split: sum.splits option.splits)

section \<open>The policies the update handlers attach\<close>

text \<open>
  C8. For every episode update by a caller with a user row that supplies an
  \<^verbatim>\<open>audioFileURL\<close> naming a stored object the caller may attach to (one with no
  record yet, or with a record of the caller's own), the audio object's ACL record after
  the request has the caller as owner. Its visibility is public exactly when the
  update's \<^verbatim>\<open>isPublished\<close> is truthy or its \<^verbatim>\<open>coverImageURL\<close> names the same
  object, and private otherwise: the cover branch runs after the audio branch and
  attaches a public policy. This holds whether the update of the row then succeeds
  (200) or throws (400).
\<close>

theorem episode_audio_record_after_update:
  assumes "user req = Some uid" and "getUser w uid = Some u"
      and "field (body req) ''audioFileURL'' = JStr url" and "url \<noteq> []"
      and "resolve_upload ns url = Inr ident"
      and "objects w ident = Some ob"
      and "map_option owner (acl ob) \<in> {None, Some uid}"
  shows "acl_of (snd (put_episode ns sch w req)) ident =
           Some \<lparr>owner = uid,
                 visibility =
                   (if truthy (field (body req) ''isPublished'')
                       \<or> (\<exists>c. field (body req) ''coverImageURL'' = JStr c \<and> c \<noteq> []
                               \<and> resolve_upload ns c = Inr ident)
                    then Public else Private),
                 rules = []\<rparr>"
proof -
  let ?v = "if truthy (field (body req) ''isPublished'') then Public else Private"
  let ?pa = "\<lparr>owner = uid, visibility = ?v\<rparr>"
  let ?w1 = "write_acl w ident ob ?pa"
  let ?u1 = "delete_field (set_field (body req) ''audioFileUrl'' (JStr ident)) ''audioFileURL''"
  have audio: "audioFile_branch ns w uid (body req) = (Inr ?u1, ?w1)"
    by (rule audioFile_branch_attaches [OF assms(3-7)])
  have cover: "field ?u1 ''coverImageURL'' = field (body req) ''coverImageURL''"
    by (simp add: field_kept)
  have final: "acl_of (snd (put_episode ns sch w req)) ident
                 = acl_of (snd (coverImage_branch ns ?w1 uid ?u1)) ident"
    using acl_of_cong [OF put_episode_objects [OF assms(1,2) audio]] by simp
  show ?thesis
  proof (cases "\<exists>c. field (body req) ''coverImageURL'' = JStr c \<and> c \<noteq> []
                      \<and> resolve_upload ns c = Inr ident")
    case True
    then obtain c where c: "field ?u1 ''coverImageURL'' = JStr c" "c \<noteq> []"
        "resolve_upload ns c = Inr ident"
      using cover by auto
    let ?ob1 = "ob\<lparr>acl := Some \<lparr>owner = uid, visibility = ?v, rules = []\<rparr>\<rparr>"
    have o1: "objects ?w1 ident = Some ?ob1"
      by (simp add: objects_write_acl)
    have o2: "map_option owner (acl ?ob1) \<in> {None, Some uid}"
      by simp
    have "acl_of (snd (coverImage_branch ns ?w1 uid ?u1)) ident
            = Some \<lparr>owner = uid, visibility = Public, rules = []\<rparr>"
      by (rule coverImage_branch_attaches [OF c o1 o2])
    with final True show ?thesis by simp
  next
    case False
    then have "\<not> (\<exists>c. field ?u1 ''coverImageURL'' = JStr c \<and> c \<noteq> []
                        \<and> resolve_upload ns c = Inr ident)"
      using cover by simp
    from coverImage_branch_elsewhere [OF this] final False
    show ?thesis by (simp add: acl_of_write_acl)
  qed
qed

theorem episode_audio_record_after_update_witness:
  "user (publish_request (JBool True)) = Some ''u1''
   \<and> field (body (publish_request (JBool True))) ''audioFileURL'' = JStr sample_url
   \<and> acl_of (snd (put_episode sample_ns sample_schema sample_world (publish_request (JBool True))))
        ''uploads/a1''
       = Some \<lparr>owner = ''u1'', visibility = Public, rules = []\<rparr>
   \<and> acl_of (snd (put_episode sample_ns sample_schema sample_world (publish_request (JBool False))))
        ''uploads/a1''
       = Some \<lparr>owner = ''u1'', visibility = Private, rules = []\<rparr>
   \<and> acl_of (snd (put_episode sample_ns sample_schema sample_world (publish_request (JStr ''yes''))))
        ''uploads/a1''
       = Some \<lparr>owner = ''u1'', visibility = Public, rules = []\<rparr>
   \<and> fst (put_episode sample_ns sample_schema sample_world (publish_request (JStr ''yes'')))
       = Json 400 (message ''message'' ''Failed to update episode'')"
proof -
  have u: "user (publish_request v) = Some ''u1''" for v
    by (simp add: publish_request_def update_request_def)
  have a: "field (body (publish_request v)) ''audioFileURL'' = JStr sample_url" for v
    by (simp add: publish_request_def update_request_def field_def)
  have c: "field (body (publish_request v)) ''coverImageURL'' = JUndefined" for v
    by (simp add: publish_request_def update_request_def field_def)
  have p: "field (body (publish_request v)) ''isPublished'' = v" for v
    by (simp add: publish_request_def update_request_def field_def)
  have r: "fst (put_episode sample_ns sample_schema sample_world (publish_request (JStr ''yes'')))
             = Json 400 (message ''message'' ''Failed to update episode'')"
    by (simp add: put_episode_def publish_request_def update_request_def getUser_def
        audioFile_branch_def coverImage_branch_def field_def delete_field_def
        trySetObjectEntityAclPolicy_def attachPolicy_def sample_upload_url
        updateEpisode_def update_row_def column_values_def Let_def sample_schema_def
        sample_world_def sample_url_nonempty)
  have t: "acl_of (snd (put_episode sample_ns sample_schema sample_world (publish_request v)))
             ''uploads/a1''
           = Some \<lparr>owner = ''u1'', visibility = (if truthy v then Public else Private),
                   rules = []\<rparr>" for v
    using episode_audio_record_after_update [where sch = sample_schema and req = "publish_request v",
               OF u sample_user_u1 a sample_url_nonempty sample_upload_url sample_object_a1
                  sample_attachable_a1]
    by (simp add: c p)
  from t [of "JBool True"] t [of "JBool False"] t [of "JStr ''yes''"] u a r
  show ?thesis by simp
qed

text \<open>
  An episode update whose \<^verbatim>\<open>isPublished\<close> is false and whose audio file and cover
  image are the same upload: the request is answered 200 and the audio object's record
  is public.
\<close>

theorem episode_cover_overrides_audio_visibility:
  "\<not> truthy (field (body same_upload_request) ''isPublished'')
   \<and> field (body same_upload_request) ''audioFileURL'' = JStr sample_url
   \<and> resolve_upload sample_ns sample_url = Inr ''uploads/a1''
   \<and> fst (put_episode sample_ns sample_schema sample_world same_upload_request)
       = Json 200 (JObj [(''title'', JStr ''Pilot''), (''isPublished'', JBool False),
                         (''audioFileUrl'', JStr ''uploads/a1''),
                         (''coverImageUrl'', JStr ''uploads/a1''),
                         (''updatedAt'', JDate 1700000000000)])
   \<and> acl_of (snd (put_episode sample_ns sample_schema sample_world same_upload_request))
        ''uploads/a1''
       = Some \<lparr>owner = ''u1'', visibility = Public, rules = []\<rparr>"
  by (simp add: sample_upload_url)
     (simp add: put_episode_def same_upload_request_def update_request_def getUser_def
        audioFile_branch_def coverImage_branch_def field_def delete_field_def
        trySetObjectEntityAclPolicy_def attachPolicy_def sample_upload_url
        updateEpisode_def update_row_def column_values_def merge_fields_def write_acl_def
        acl_of_def Let_def sample_schema_def sample_world_def sample_url_nonempty)

text \<open>
  C9. For every show, season or episode update by a caller with a user row that supplies
  a \<^verbatim>\<open>coverImageURL\<close> naming a stored object the caller may attach to, the cover
  image's ACL record after the request has visibility public and the caller as owner,
  whether the update of the row then succeeds (200) or throws (400). In the episode
  handler the cover branch is reached when the audio branch before it does not throw,
  that is, when no \<^verbatim>\<open>audioFileURL\<close> is supplied or it too names an object the
  caller may attach to.
\<close>

theorem cover_image_attach_is_public:
  assumes "user req = Some uid" and "getUser w uid = Some u"
      and "field (body req) ''coverImageURL'' = JStr url" and "url \<noteq> []"
      and "resolve_upload ns url = Inr ident"
      and "objects w ident = Some ob"
      and "map_option owner (acl ob) \<in> {None, Some uid}"
  shows "acl_of (snd (put_show ns sch w req)) ident
           = Some \<lparr>owner = uid, visibility = Public, rules = []\<rparr>
       \<and> acl_of (snd (put_season ns sch w req)) ident
           = Some \<lparr>owner = uid, visibility = Public, rules = []\<rparr>
       \<and> ((truthy (field (body req) ''audioFileURL'')
             \<longrightarrow> (\<exists>a aid aob. field (body req) ''audioFileURL'' = JStr a
                     \<and> resolve_upload ns a = Inr aid \<and> objects w aid = Some aob
                     \<and> map_option owner (acl aob) \<in> {None, Some uid}))
            \<longrightarrow> acl_of (snd (put_episode ns sch w req)) ident
                  = Some \<lparr>owner = uid, visibility = Public, rules = []\<rparr>)"
proof (intro conjI impI)
  show "acl_of (snd (put_show ns sch w req)) ident
          = Some \<lparr>owner = uid, visibility = Public, rules = []\<rparr>"
    using acl_of_cong [OF put_show_objects [OF assms(1,2)]]
      coverImage_branch_attaches [OF assms(3-7)]
    by simp
  show "acl_of (snd (put_season ns sch w req)) ident
          = Some \<lparr>owner = uid, visibility = Public, rules = []\<rparr>"
    using acl_of_cong [OF put_season_objects [OF assms(1,2)]]
      coverImage_branch_attaches [OF assms(3-7)]
    by simp
next
  assume audio_ok: "truthy (field (body req) ''audioFileURL'')
             \<longrightarrow> (\<exists>a aid aob. field (body req) ''audioFileURL'' = JStr a
                     \<and> resolve_upload ns a = Inr aid \<and> objects w aid = Some aob
                     \<and> map_option owner (acl aob) \<in> {None, Some uid})"
  have "\<exists>updates1 w1 ob1. audioFile_branch ns w uid (body req) = (Inr updates1, w1)
          \<and> field updates1 ''coverImageURL'' = JStr url
          \<and> objects w1 ident = Some ob1 \<and> map_option owner (acl ob1) \<in> {None, Some uid}"
  proof (cases "truthy (field (body req) ''audioFileURL'')")
    case False
    with assms(3,6,7) show ?thesis by (simp add: audioFile_branch_not_taken)
  next
    case True
    with audio_ok obtain a aid aob where a: "field (body req) ''audioFileURL'' = JStr a"
      "resolve_upload ns a = Inr aid" "objects w aid = Some aob"
      "map_option owner (acl aob) \<in> {None, Some uid}"
      by blast
    from True a(1) have "a \<noteq> []" by auto
    from audioFile_branch_attaches [OF a(1) this a(2-4)] assms(3,6,7)
    show ?thesis by (auto simp add: field_kept objects_write_acl)
  qed
  then obtain updates1 w1 ob1 where b: "audioFile_branch ns w uid (body req) = (Inr updates1, w1)"
    and c: "field updates1 ''coverImageURL'' = JStr url"
    and o: "objects w1 ident = Some ob1" "map_option owner (acl ob1) \<in> {None, Some uid}"
    by blast
  from acl_of_cong [OF put_episode_objects [OF assms(1,2) b]]
    coverImage_branch_attaches [OF c assms(4,5) o]
  show "acl_of (snd (put_episode ns sch w req)) ident
          = Some \<lparr>owner = uid, visibility = Public, rules = []\<rparr>"
    by simp
qed

theorem cover_image_attach_is_public_witness:
  "user (cover_request ''s1'') = Some ''u1''
   \<and> field (body (cover_request ''s1'')) ''coverImageURL'' = JStr sample_url
   \<and> acl_of (snd (put_show sample_ns sample_schema sample_world (cover_request ''s1'')))
        ''uploads/a1''
       = Some \<lparr>owner = ''u1'', visibility = Public, rules = []\<rparr>
   \<and> acl_of (snd (put_season sample_ns sample_schema sample_world (cover_request ''n1'')))
        ''uploads/a1''
       = Some \<lparr>owner = ''u1'', visibility = Public, rules = []\<rparr>
   \<and> acl_of (snd (put_episode sample_ns sample_schema sample_world (cover_request ''e1'')))
        ''uploads/a1''
       = Some \<lparr>owner = ''u1'', visibility = Public, rules = []\<rparr>"
proof -
  have u: "user (cover_request i) = Some ''u1''" for i
    by (simp add: cover_request_def update_request_def)
  have c: "field (body (cover_request i)) ''coverImageURL'' = JStr sample_url" for i
    by (simp add: cover_request_def update_request_def field_def)
  have a: "\<not> truthy (field (body (cover_request i)) ''audioFileURL'')" for i
    by (simp add: cover_request_def update_request_def field_def)
  note t = cover_image_attach_is_public [where sch = sample_schema and w = sample_world,
                 OF u sample_user_u1 c sample_url_nonempty sample_upload_url sample_object_a1
                    sample_attachable_a1]
  from t [of "''s1''"] t [of "''n1''"] t [of "''e1''"] u c a
  show ?thesis by simp
qed

text \<open>
  C10. For every request to \<^verbatim>\<open>PUT /api/projects/:id/audio\<close> that carries a session
  user (the handler is registered behind \<^verbatim>\<open>isAuthenticated\<close> and reads
  \<^verbatim>\<open>req.user.claims.sub\<close>), if the body lacks a truthy \<^verbatim>\<open>audioFileUrl\<close> the
  answer is 400, and otherwise if the caller's role is \<open>client\<close> the answer is 403; in
  both cases no attach is made and the state is unchanged.
\<close>

theorem project_audio_guards_reject_before_attach:
  assumes "user req = Some uid"
      and "\<not> truthy (field (body req) ''audioFileUrl'')
             \<or> map_option role (getUser w uid) = Some ''client''"
  shows "put_project_audio ns w req =
           (if \<not> truthy (field (body req) ''audioFileUrl'')
            then Json 400 (message ''error'' ''audioFileUrl is required'')
            else Json 403 (message ''message'' ''Access denied''), w)"
  using assms by (auto simp add: put_project_audio_def)

theorem project_audio_guards_reject_before_attach_witness:
  "user (update_request ''p1'' (Some ''u1'') []) = Some ''u1''
   \<and> \<not> truthy (field (body (update_request ''p1'' (Some ''u1'') [])) ''audioFileUrl'')
   \<and> put_project_audio sample_ns sample_world (update_request ''p1'' (Some ''u1'') [])
       = (Json 400 (message ''error'' ''audioFileUrl is required''), sample_world)
   \<and> map_option role (getUser sample_world ''u2'') = Some ''client''
   \<and> put_project_audio sample_ns sample_world
        (update_request ''p1'' (Some ''u2'')
           [(''audioFileUrl'', JStr ''https://blob.example/private/uploads/a1?sig=abc'')])
       = (Json 403 (message ''message'' ''Access denied''), sample_world)"
proof -
  let ?r1 = "update_request ''p1'' (Some ''u1'') []"
  let ?r2 = "update_request ''p1'' (Some ''u2'')
           [(''audioFileUrl'', JStr ''https://blob.example/private/uploads/a1?sig=abc'')]"
  have a1: "user ?r1 = Some ''u1''" by (simp add: update_request_def)
  have a2: "\<not> truthy (field (body ?r1) ''audioFileUrl'')"
    by (simp add: update_request_def field_def)
  have b1: "user ?r2 = Some ''u2''" by (simp add: update_request_def)
  have b2: "map_option role (getUser sample_world ''u2'') = Some ''client''"
    by (simp add: getUser_def sample_world_def)
  have b3: "truthy (field (body ?r2) ''audioFileUrl'')"
    by (simp add: update_request_def field_def)
  from project_audio_guards_reject_before_attach [OF a1, of sample_world sample_ns]
    project_audio_guards_reject_before_attach [OF b1, of sample_world sample_ns] a1 a2 b2 b3
  show ?thesis by simp
qed

end
